theory Spec2Isabelle
  imports Main
begin

section \<open>The document and the anchor lookup\<close>

text \<open>
  The hosting page is a tree of elements, each with a tag, an optional \<open>id\<close> attribute and
  its child elements. \<open>document.getElementById\<close> returns the first element in tree order
  (preorder) whose id is the one asked for, or null (\<open>None\<close>).
\<close>

datatype dom_node = DomElement (dom_tag: string) (dom_id: "string option") (dom_kids: "dom_node list")

fun dom_nodes :: "dom_node \<Rightarrow> dom_node list" where
  "dom_nodes (DomElement t i ks) = DomElement t i ks # concat (map dom_nodes ks)"

definition getElementById :: "dom_node \<Rightarrow> string \<Rightarrow> dom_node option" where
  "getElementById document elementId = find (\<lambda>n. dom_id n = Some elementId) (dom_nodes document)"

text \<open>
  The spec's wording "the anchor node exists in the document": some element of the
  document carries the well-known identifier, which \<open>Modal\<close> fixes as \<open>root\<close>.
\<close>

definition anchor_exists :: "dom_node \<Rightarrow> bool" where
  "anchor_exists document = list_ex (\<lambda>n. dom_id n = Some ''root'') (dom_nodes document)"

section \<open>React nodes, click events and handlers\<close>

text \<open>
  A click event carries the flag that \<open>e.stopPropagation()\<close> sets. A click handler is a
  function of the event that acts on the world \<open>'w\<close> (whatever state the callbacks of the
  application touch) and may stop the event. A callback such as \<open>onClose\<close> is a JavaScript
  function: what it does may depend on the arguments it is called with, so the model hands
  it the argument list of the call.
\<close>

record click_event =
  propagationStopped :: bool

definition stopPropagation :: "click_event \<Rightarrow> click_event" where
  "stopPropagation e = e\<lparr>propagationStopped := True\<rparr>"

type_synonym 'w handler = "click_event \<Rightarrow> 'w \<Rightarrow> click_event \<times> 'w"

type_synonym 'w callback = "click_event list \<Rightarrow> 'w \<Rightarrow> 'w"

datatype css_value = CssStr string | CssNum int

type_synonym css_style = "(string \<times> css_value) list"

text \<open>
  A \<open>ReactNode\<close>: null, a text, an element (tag, \<open>style\<close>, \<open>onClick\<close>, children) or a portal
  made by \<open>createPortal(child, container)\<close>, which mounts \<open>child\<close> under the DOM node
  \<open>container\<close> instead of the place where the portal stands in the tree.
\<close>

datatype 'w rnode =
    Null
  | Text string
  | Elem (tag: string) (style: css_style) (onClick: "'w handler option") (kids: "'w rnode list")
  | Portal "'w rnode" dom_node

definition createPortal :: "'w rnode \<Rightarrow> dom_node \<Rightarrow> 'w rnode" where
  "createPortal child container = Portal child container"

text \<open>
  React calls an \<open>onClick\<close> prop with the click event as its one argument. So when a
  callback is given as the prop itself, \<open>onClick={onClose}\<close>, it is called with that event.
\<close>

definition as_handler :: "'w callback \<Rightarrow> 'w handler" where
  "as_handler f = (\<lambda>e w. (e, f [e] w))"

section \<open>The overlay component \<open>Modal\<close>\<close>

record 'w IModalProps =
  isOpen :: bool
  onClose :: "'w callback"
  children :: "'w rnode list"

datatype dom_query = GetElementById string

definition backdrop_style :: css_style where
  "backdrop_style =
    [(''position'', CssStr ''fixed''),
     (''top'', CssNum 0),
     (''left'', CssNum 0),
     (''width'', CssStr ''100vw''),
     (''height'', CssStr ''100vh''),
     (''backgroundColor'', CssStr ''rgba(0,0,0,0.4)''),
     (''display'', CssStr ''flex''),
     (''alignItems'', CssStr ''center''),
     (''justifyContent'', CssStr ''center''),
     (''zIndex'', CssNum 1000)]"

definition panel_style :: css_style where
  "panel_style =
    [(''background'', CssStr ''white''),
     (''borderRadius'', CssStr ''12px''),
     (''padding'', CssStr ''20px''),
     (''minWidth'', CssStr ''300px''),
     (''boxShadow'', CssStr ''0 4px 10px rgba(0,0,0,0.2)'')]"

text \<open>
  \<open>Modal_run\<close> follows the body of \<open>Modal\<close> statement by statement and returns, beside
  the rendered node, the queries the call made to the document, in order.
\<close>

definition Modal_run :: "dom_node \<Rightarrow> 'w IModalProps \<Rightarrow> 'w rnode \<times> dom_query list" where
  "Modal_run document props =
    (if \<not> isOpen props then (Null, [])
     else
       let modalRoot = getElementById document ''root'';
           queries = [GetElementById ''root'']
       in case modalRoot of
            None \<Rightarrow> (Null, queries)
          | Some container \<Rightarrow>
              (createPortal
                 (Elem ''div'' backdrop_style (Some (as_handler (onClose props)))
                    [Elem ''div'' panel_style (Some (\<lambda>e w. (stopPropagation e, w)))
                       (children props)])
                 container,
               queries))"

definition Modal :: "dom_node \<Rightarrow> 'w IModalProps \<Rightarrow> 'w rnode" where
  "Modal document props = fst (Modal_run document props)"

definition Modal_queries :: "dom_node \<Rightarrow> 'w IModalProps \<Rightarrow> dom_query list" where
  "Modal_queries document props = snd (Modal_run document props)"

section \<open>Dispatching a click\<close>

text \<open>
  A click targets an element, named by the path of child indices from the root of the
  rendered tree (a portal has its child at index 0). React runs the \<open>onClick\<close> handlers
  from the target outwards through its ancestors and stops as soon as a handler has
  called \<open>stopPropagation\<close>.
\<close>

fun child_at :: "'w rnode \<Rightarrow> nat \<Rightarrow> 'w rnode option" where
  "child_at (Elem t st h ks) i = (if i < length ks then Some (ks ! i) else None)"
| "child_at (Portal c d) i = (if i = 0 then Some c else None)"
| "child_at Null i = None"
| "child_at (Text s) i = None"

fun own_handler :: "'w rnode \<Rightarrow> 'w handler list" where
  "own_handler (Elem t st (Some h) ks) = [h]"
| "own_handler (Elem t st None ks) = []"
| "own_handler (Portal c d) = []"
| "own_handler Null = []"
| "own_handler (Text s) = []"

fun is_element :: "'w rnode \<Rightarrow> bool" where
  "is_element (Elem t st h ks) = True"
| "is_element (Portal c d) = False"
| "is_element Null = False"
| "is_element (Text s) = False"

text \<open>The handlers on the way to the target, the target's own first; \<open>None\<close> when the
  path names no element.\<close>

fun handlers_to :: "'w rnode \<Rightarrow> nat list \<Rightarrow> 'w handler list \<Rightarrow> 'w handler list option" where
  "handlers_to n [] acc = (if is_element n then Some (own_handler n @ acc) else None)"
| "handlers_to n (i # p) acc =
     (case child_at n i of
        None \<Rightarrow> None
      | Some c \<Rightarrow> handlers_to c p (own_handler n @ acc))"

fun bubble :: "'w handler list \<Rightarrow> click_event \<Rightarrow> 'w \<Rightarrow> click_event \<times> 'w" where
  "bubble [] e w = (e, w)"
| "bubble (h # hs) e w =
     (if propagationStopped e then (e, w)
      else case h e w of (e', w') \<Rightarrow> bubble hs e' w')"

definition new_click :: click_event where
  "new_click = \<lparr>propagationStopped = False\<rparr>"

definition click :: "'w rnode \<Rightarrow> nat list \<Rightarrow> 'w \<Rightarrow> (click_event \<times> 'w) option" where
  "click root path w = map_option (\<lambda>hs. bubble hs new_click w) (handlers_to root path [])"

text \<open>Every \<open>onClick\<close> handler of a rendered tree, in tree order.\<close>

fun all_handlers :: "'w rnode \<Rightarrow> 'w handler list" where
  "all_handlers Null = []"
| "all_handlers (Text s) = []"
| "all_handlers (Elem t st h ks) = (case h of None \<Rightarrow> [] | Some f \<Rightarrow> [f]) @ concat (map all_handlers ks)"
| "all_handlers (Portal c d) = all_handlers c"

section \<open>The shell view \<open>App\<close>\<close>

text \<open>
  The shell's only state is the cell of \<open>useState<boolean>(false)\<close>. \<open>App_init\<close> is its
  value when the shell is created, \<open>setIsOpen\<close> is its setter, and \<open>App\<close> renders the shell
  for the current value of the cell.
\<close>

type_synonym app_state = bool

definition App_init :: app_state where
  "App_init = False"

definition setIsOpen :: "bool \<Rightarrow> app_state \<Rightarrow> app_state" where
  "setIsOpen v s = v"

definition trigger_onClick :: "app_state handler" where
  "trigger_onClick = (\<lambda>e s. (e, setIsOpen True s))"

definition modal_onClose :: "app_state callback" where
  "modal_onClose = (\<lambda>args s. setIsOpen False s)"

definition close_onClick :: "app_state handler" where
  "close_onClick = (\<lambda>e s. (e, setIsOpen False s))"

definition trigger_style :: css_style where
  "trigger_style =
    [(''padding'', CssStr ''10px 20px''),
     (''borderRadius'', CssStr ''8px''),
     (''border'', CssStr ''none''),
     (''backgroundColor'', CssStr ''#007bff''),
     (''color'', CssStr ''white''),
     (''cursor'', CssStr ''pointer'')]"

definition App_children :: "app_state rnode list" where
  "App_children =
    [Elem ''h2'' [] None
       [Text (''Hello from the Portal '' @ [CHR 0xF0, CHR 0x9F, CHR 0x91, CHR 0x8B])],
     Elem ''p'' [] None [Text ''This content is rendered outside the main DOM tree!''],
     Elem ''button'' [] (Some close_onClick) [Text ''Close'']]"

definition App :: "dom_node \<Rightarrow> app_state \<Rightarrow> app_state rnode" where
  "App document s =
    Elem ''div'' [(''textAlign'', CssStr ''center''), (''marginTop'', CssStr ''100px'')] None
      [Elem ''h1'' [] None [Text ''React Portal Example''],
       Elem ''p'' [] None
         [Text ''This demonstrates how to render modals outside the root element.''],
       Elem ''button'' trigger_style (Some trigger_onClick) [Text ''Open Modal''],
       Modal document \<lparr>isOpen = s, onClose = modal_onClose, children = App_children\<rparr>]"

text \<open>One click on the rendered shell: the handlers run on the cell, and the shell is
  rendered again from the new value.\<close>

definition App_click :: "dom_node \<Rightarrow> app_state \<Rightarrow> nat list \<Rightarrow> app_state option" where
  "App_click document s path = map_option snd (click (App document s) path s)"

section \<open>Observing the rendered overlay\<close>

text \<open>The content found inside the panel of a rendered overlay, and the same overlay with
  other content in the panel.\<close>

fun rendered_content :: "'w rnode \<Rightarrow> 'w rnode list option" where
  "rendered_content (Portal (Elem t st h [Elem t' st' h' cs]) c) = Some cs"
| "rendered_content n = None"

fun with_content :: "'w rnode list \<Rightarrow> 'w rnode \<Rightarrow> 'w rnode" where
  "with_content cs (Portal (Elem t st h [Elem t' st' h' old]) c) = Portal (Elem t st h [Elem t' st' h' cs]) c"
| "with_content cs n = n"

text \<open>Every \<open>style\<close> of a rendered tree, in tree order.\<close>

fun all_styles :: "'w rnode \<Rightarrow> css_style list" where
  "all_styles Null = []"
| "all_styles (Text s) = []"
| "all_styles (Elem t st h ks) = st # concat (map all_styles ks)"
| "all_styles (Portal c d) = all_styles c"

section \<open>Concrete pages and props\<close>

text \<open>
  Three hosting pages: one with the \<open>root\<close> element, one without it, and one with it at
  another place. \<open>count_args\<close> is a callback that records, at each call, how many arguments
  it received; its world is the list of these records.
\<close>

definition page_with_anchor :: dom_node where
  "page_with_anchor =
    DomElement ''html'' None
      [DomElement ''head'' None [],
       DomElement ''body'' None [DomElement ''div'' (Some ''root'') []]]"

definition page_without_anchor :: dom_node where
  "page_without_anchor =
    DomElement ''html'' None
      [DomElement ''head'' None [],
       DomElement ''body'' None [DomElement ''div'' (Some ''app'') []]]"

definition page_with_anchor_moved :: dom_node where
  "page_with_anchor_moved =
    DomElement ''html'' None
      [DomElement ''body'' None
         [DomElement ''main'' (Some ''content'') [], DomElement ''div'' (Some ''root'') []]]"

definition count_args :: "nat list callback" where
  "count_args args calls = calls @ [length args]"

definition counting_props :: "nat list IModalProps" where
  "counting_props = \<lparr>isOpen = True, onClose = count_args, children = [Text ''hello'']\<rparr>"

section \<open>Facts about the anchor lookup and the rendered overlay\<close>

lemma getElementById_None_iff:
  "getElementById document i = None \<longleftrightarrow> \<not> list_ex (\<lambda>n. dom_id n = Some i) (dom_nodes document)"
  by (auto simp: getElementById_def find_None_iff list_ex_iff)

lemma getElementById_SomeD:
  "getElementById document i = Some n \<Longrightarrow> n \<in> set (dom_nodes document) \<and> dom_id n = Some i"
  unfolding getElementById_def by (auto simp: find_Some_iff)

lemma anchor_exists_iff: "anchor_exists document \<longleftrightarrow> getElementById document ''root'' \<noteq> None"
  by (simp add: anchor_exists_def getElementById_None_iff)

lemma Modal_closed: "\<not> isOpen props \<Longrightarrow> Modal document props = Null"
  by (simp add: Modal_def Modal_run_def)

lemma Modal_no_anchor: "getElementById document ''root'' = None \<Longrightarrow> Modal document props = Null"
  by (simp add: Modal_def Modal_run_def)

lemma Modal_open:
  "isOpen props \<Longrightarrow> getElementById document ''root'' = Some a \<Longrightarrow>
   Modal document props =
     Portal (Elem ''div'' backdrop_style (Some (as_handler (onClose props)))
               [Elem ''div'' panel_style (Some (\<lambda>e w. (stopPropagation e, w))) (children props)]) a"
  by (simp add: Modal_def Modal_run_def createPortal_def)

lemma Modal_open_queries: "isOpen props \<Longrightarrow> Modal_queries document props = [GetElementById ''root'']"
  by (simp add: Modal_queries_def Modal_run_def Let_def split: option.splits)

lemma page_with_anchor_lookup:
  "getElementById page_with_anchor ''root'' = Some (DomElement ''div'' (Some ''root'') [])"
  by (simp add: getElementById_def page_with_anchor_def)

lemma page_without_anchor_lookup: "getElementById page_without_anchor ''root'' = None"
  by (simp add: getElementById_def page_without_anchor_def)

lemma page_with_anchor_moved_lookup:
  "getElementById page_with_anchor_moved ''root'' = Some (DomElement ''div'' (Some ''root'') [])"
  by (simp add: getElementById_def page_with_anchor_moved_def)

lemma page_with_anchor_exists: "anchor_exists page_with_anchor"
  by (simp add: anchor_exists_iff page_with_anchor_lookup)

lemma page_without_anchor_absent: "\<not> anchor_exists page_without_anchor"
  by (simp add: anchor_exists_iff page_without_anchor_lookup)

lemma counting_props_open: "isOpen counting_props"
  by (simp add: counting_props_def)

lemma counting_props_onClose: "onClose counting_props = count_args"
  by (simp add: counting_props_def)

lemma Modal_page_with_anchor:
  "Modal page_with_anchor counting_props =
     Portal (Elem ''div'' backdrop_style (Some (as_handler count_args))
               [Elem ''div'' panel_style (Some (\<lambda>e w. (stopPropagation e, w))) [Text ''hello'']])
       (DomElement ''div'' (Some ''root'') [])"
  by (simp add: Modal_open page_with_anchor_lookup counting_props_def)

section \<open>Facts about click dispatch\<close>

lemma handlers_to_acc:
  "handlers_to n p acc = map_option (\<lambda>hs. hs @ acc) (handlers_to n p [])"
proof (induction p arbitrary: n acc)
  case Nil
  show ?case by simp
next
  case (Cons i p)
  show ?case
  proof (cases "child_at n i")
    case None
    then show ?thesis by simp
  next
    case (Some c)
    have "handlers_to c p (own_handler n @ acc) = map_option (\<lambda>hs. hs @ own_handler n @ acc) (handlers_to c p [])"
      by (rule Cons.IH)
    moreover have "handlers_to c p (own_handler n @ []) = map_option (\<lambda>hs. hs @ own_handler n @ []) (handlers_to c p [])"
      by (rule Cons.IH)
    ultimately show ?thesis using Some
      by (simp add: option.map_comp comp_def)
  qed
qed

lemma handlers_to_drop_onClick:
  "handlers_to (Elem t st (Some h) ks) p acc = handlers_to (Elem t st None ks) p (h # acc)"
  by (cases p) simp_all

lemma bubble_stopped: "propagationStopped e \<Longrightarrow> bubble hs e w = (e, w)"
  by (cases hs) simp_all

lemma bubble_append:
  "bubble (hs @ hs') e w = (case bubble hs e w of (e', w') \<Rightarrow> bubble hs' e' w')"
proof (induction hs arbitrary: e w)
  case Nil
  show ?case by simp
next
  case (Cons h hs)
  show ?case
  proof (cases "propagationStopped e")
    case True
    then show ?thesis by (simp add: bubble_stopped)
  next
    case False
    then show ?thesis by (simp add: Cons.IH split: prod.splits)
  qed
qed

lemma stopPropagation_idem: "propagationStopped e \<Longrightarrow> stopPropagation e = e"
  by (simp add: stopPropagation_def)

lemma bubble_panel_backdrop:
  "bubble [\<lambda>e w. (stopPropagation e, w), f] e w = (stopPropagation e, w)"
  by (simp add: stopPropagation_idem) (simp add: stopPropagation_def)

lemma bubble_then_panel_backdrop:
  "bubble (hs @ [\<lambda>e w. (stopPropagation e, w), f]) e w
   = (case bubble hs e w of (e', w') \<Rightarrow> (stopPropagation e', w'))"
  by (simp only: bubble_append bubble_panel_backdrop)

lemma click_inside_panel:
  "click (Portal (Elem t st (Some f) [Elem t' st' (Some (\<lambda>e w. (stopPropagation e, w))) cs]) a) (0 # 0 # p) w
   = map_option (\<lambda>(e, w'). (stopPropagation e, w')) (click (Elem t' st' None cs) p w)"
proof -
  let ?stop = "\<lambda>(e::click_event) (w::'a). (stopPropagation e, w)"
  have "handlers_to (Portal (Elem t st (Some f) [Elem t' st' (Some ?stop) cs]) a) (0 # 0 # p) []
        = handlers_to (Elem t' st' None cs) p [?stop, f]"
    by (simp add: handlers_to_drop_onClick)
  also have "\<dots> = map_option (\<lambda>hs. hs @ [?stop, f]) (handlers_to (Elem t' st' None cs) p [])"
    by (rule handlers_to_acc)
  finally have "handlers_to (Portal (Elem t st (Some f) [Elem t' st' (Some ?stop) cs]) a) (0 # 0 # p) []
        = map_option (\<lambda>hs. hs @ [?stop, f]) (handlers_to (Elem t' st' None cs) p [])" .
  then show ?thesis
    by (simp only: click_def option.map_comp comp_def bubble_then_panel_backdrop)
qed

lemma handlers_to_Null [simp]: "handlers_to Null p acc = None"
  by (cases p) simp_all

lemma handlers_to_Text [simp]: "handlers_to (Text x) p acc = None"
  by (cases p) simp_all

lemma handlers_to_leaf [simp]:
  "handlers_to (Elem t st h [Text x]) p acc =
     (if p = [] then Some (own_handler (Elem t st h [Text x]) @ acc) else None)"
  by (cases p) simp_all

lemma handlers_to_Portal [simp]:
  "handlers_to (Portal c d) p acc = (case p of [] \<Rightarrow> None | i # q \<Rightarrow> if i = 0 then handlers_to c q acc else None)"
  by (cases p) simp_all

lemma handlers_to_kids1:
  "handlers_to (Elem t st h [a]) (i # p) acc =
     (if i = 0 then handlers_to a p (own_handler (Elem t st h [a]) @ acc) else None)"
  by simp

lemma handlers_to_kids3:
  "handlers_to (Elem t st h [a, b, c]) (i # p) acc =
     (if i = 0 then handlers_to a p (own_handler (Elem t st h [a, b, c]) @ acc)
      else if i = 1 then handlers_to b p (own_handler (Elem t st h [a, b, c]) @ acc)
      else if i = 2 then handlers_to c p (own_handler (Elem t st h [a, b, c]) @ acc)
      else None)"
proof -
  have "i = 0 \<or> i = 1 \<or> i = 2 \<or> 3 \<le> i" by arith
  then show ?thesis by (elim disjE) simp_all
qed

lemma handlers_to_kids4:
  "handlers_to (Elem t st h [a, b, c, d]) (i # p) acc =
     (if i = 0 then handlers_to a p (own_handler (Elem t st h [a, b, c, d]) @ acc)
      else if i = 1 then handlers_to b p (own_handler (Elem t st h [a, b, c, d]) @ acc)
      else if i = 2 then handlers_to c p (own_handler (Elem t st h [a, b, c, d]) @ acc)
      else if i = 3 then handlers_to d p (own_handler (Elem t st h [a, b, c, d]) @ acc)
      else None)"
proof -
  have "i = 0 \<or> i = 1 \<or> i = 2 \<or> i = 3 \<or> 4 \<le> i" by arith
  then show ?thesis by (elim disjE) simp_all
qed

section \<open>Facts about the rendered shell\<close>

lemma App_closed:
  "\<not> (s \<and> anchor_exists document) \<Longrightarrow>
   App document s =
    Elem ''div'' [(''textAlign'', CssStr ''center''), (''marginTop'', CssStr ''100px'')] None
      [Elem ''h1'' [] None [Text ''React Portal Example''],
       Elem ''p'' [] None
         [Text ''This demonstrates how to render modals outside the root element.''],
       Elem ''button'' trigger_style (Some trigger_onClick) [Text ''Open Modal''],
       Null]"
  by (auto simp: App_def anchor_exists_iff Modal_closed Modal_no_anchor)

lemma App_open:
  "s \<Longrightarrow> getElementById document ''root'' = Some a \<Longrightarrow>
   App document s =
    Elem ''div'' [(''textAlign'', CssStr ''center''), (''marginTop'', CssStr ''100px'')] None
      [Elem ''h1'' [] None [Text ''React Portal Example''],
       Elem ''p'' [] None
         [Text ''This demonstrates how to render modals outside the root element.''],
       Elem ''button'' trigger_style (Some trigger_onClick) [Text ''Open Modal''],
       Portal (Elem ''div'' backdrop_style (Some (as_handler modal_onClose))
               [Elem ''div'' panel_style (Some (\<lambda>e w. (stopPropagation e, w))) App_children]) a]"
  by (simp add: App_def Modal_open)

lemma all_handlers_App:
  "all_handlers (App document s) =
     trigger_onClick #
     (if s \<and> anchor_exists document
      then [as_handler modal_onClose, \<lambda>e w. (stopPropagation e, w), close_onClick]
      else [])"
proof (cases "s \<and> anchor_exists document")
  case True
  then obtain a where a: "getElementById document ''root'' = Some a"
    by (auto simp: anchor_exists_iff)
  from True have s by simp
  then show ?thesis using True
    by (simp add: App_open [OF _ a] App_children_def)
next
  case False
  then show ?thesis by (simp add: App_closed)
qed

lemma App_click_closed:
  assumes "\<not> (s \<and> anchor_exists document)"
  shows "App_click document s path =
     (if path = [] \<or> path = [0] \<or> path = [1] then Some s
      else if path = [2] then Some True
      else None)"
proof (cases path)
  case Nil
  then show ?thesis
    by (simp add: App_click_def click_def App_closed [OF assms])
next
  case (Cons i p)
  then show ?thesis
    by (simp add: App_click_def click_def App_closed [OF assms] handlers_to_kids4
        trigger_onClick_def setIsOpen_def new_click_def del: handlers_to.simps)
qed

lemma handlers_to_panel:
  "handlers_to (Elem ''div'' panel_style (Some f) App_children) q acc =
     (if q = [] \<or> q = [0] \<or> q = [1] then Some (f # acc)
      else if q = [2] then Some (close_onClick # f # acc)
      else None)"
proof (cases q)
  case Nil
  then show ?thesis by simp
next
  case (Cons i r)
  then show ?thesis
    by (simp add: App_children_def handlers_to_kids3 del: handlers_to.simps(2))
qed

lemma handlers_to_backdrop:
  "handlers_to
     (Elem ''div'' backdrop_style (Some g) [Elem ''div'' panel_style (Some f) App_children]) q acc =
     (if q = [] then Some (g # acc)
      else if q = [0] \<or> q = [0, 0] \<or> q = [0, 1] then Some (f # g # acc)
      else if q = [0, 2] then Some (close_onClick # f # g # acc)
      else None)"
proof (cases q)
  case Nil
  then show ?thesis by simp
next
  case (Cons i r)
  then show ?thesis
    by (simp add: handlers_to_kids1 handlers_to_panel del: handlers_to.simps(2))
qed

lemma handlers_to_App_open:
  assumes "s" and "getElementById document ''root'' = Some a"
  shows "handlers_to (App document s) path [] =
     (if path = [] \<or> path = [0] \<or> path = [1] then Some []
      else if path = [2] then Some [trigger_onClick]
      else if path = [3, 0] then Some [as_handler modal_onClose]
      else if path = [3, 0, 0] \<or> path = [3, 0, 0, 0] \<or> path = [3, 0, 0, 1]
        then Some [\<lambda>e w. (stopPropagation e, w), as_handler modal_onClose]
      else if path = [3, 0, 0, 2]
        then Some [close_onClick, \<lambda>e w. (stopPropagation e, w), as_handler modal_onClose]
      else None)"
proof (cases path)
  case Nil
  then show ?thesis by (simp add: App_open [OF assms])
next
  case (Cons i r)
  then show ?thesis
    by (simp add: App_open [OF assms] handlers_to_kids4 handlers_to_backdrop
        del: handlers_to.simps(2) split: list.splits)
qed

lemma App_click_open:
  assumes "s" "anchor_exists document"
  shows "App_click document s path =
     (if path = [] \<or> path = [0] \<or> path = [1] \<or> path = [3, 0, 0] \<or> path = [3, 0, 0, 0]
         \<or> path = [3, 0, 0, 1] then Some s
      else if path = [2] then Some True
      else if path = [3, 0] \<or> path = [3, 0, 0, 2] then Some False
      else None)"
proof -
  from assms(2) obtain a where a: "getElementById document ''root'' = Some a"
    by (auto simp: anchor_exists_iff)
  show ?thesis
    by (auto simp: App_click_def click_def handlers_to_App_open [OF assms(1) a]
        trigger_onClick_def setIsOpen_def new_click_def as_handler_def modal_onClose_def
        close_onClick_def stopPropagation_def)
qed

text \<open>In the rendered shell the backdrop is the only element that sets a \<open>zIndex\<close>.\<close>

lemma App_only_backdrop_has_zIndex:
  "filter (\<lambda>st. map_of st ''zIndex'' \<noteq> None) (all_styles (App document s)) =
     (if s \<and> anchor_exists document then [backdrop_style] else [])"
proof (cases "s \<and> anchor_exists document")
  case True
  then obtain a where a: "getElementById document ''root'' = Some a"
    by (auto simp: anchor_exists_iff)
  from True have s by simp
  then show ?thesis using True
    by (simp add: App_open [OF _ a] App_children_def trigger_style_def panel_style_def)
       (simp add: backdrop_style_def)
next
  case False
  then show ?thesis by (simp add: App_closed trigger_style_def)
qed

section \<open>The overlay component: when it renders\<close>

text \<open>
  C1. For every \<open>isOpen\<close>, every \<open>onClose\<close> callback and every content, \<open>Modal\<close>
  produces visible output if and only if \<open>isOpen\<close> is true and the anchor node exists in
  the document, and that output is the backdrop element, holding the content panel, in a
  portal on the anchor node; in all other cases, and only then, it returns null.
\<close>

theorem Modal_visible_iff:
  "((\<exists>container.
        getElementById document ''root'' = Some container
      \<and> Modal document props =
          Portal
            (Elem ''div'' backdrop_style (Some (as_handler (onClose props)))
               [Elem ''div'' panel_style (Some (\<lambda>e w. (stopPropagation e, w)))
                  (children props)])
            container)
      \<longleftrightarrow> isOpen props \<and> anchor_exists document)
   \<and> (Modal document props = Null \<longleftrightarrow> \<not> (isOpen props \<and> anchor_exists document))"
proof (cases "isOpen props \<and> anchor_exists document")
  case True
  then obtain a where a: "getElementById document ''root'' = Some a"
    by (auto simp: anchor_exists_iff)
  from True have "isOpen props" by simp
  then have "Modal document props =
      Portal
        (Elem ''div'' backdrop_style (Some (as_handler (onClose props)))
           [Elem ''div'' panel_style (Some (\<lambda>e w. (stopPropagation e, w))) (children props)])
        a"
    using a by (rule Modal_open)
  with True a show ?thesis by simp
next
  case False
  then have "Modal document props = Null"
    by (auto simp: anchor_exists_iff Modal_closed Modal_no_anchor)
  with False show ?thesis by simp
qed

theorem Modal_visible_iff_witness:
  "Modal page_with_anchor counting_props =
     Portal
       (Elem ''div'' backdrop_style (Some (as_handler count_args))
          [Elem ''div'' panel_style (Some (\<lambda>e w. (stopPropagation e, w))) [Text ''hello'']])
       (DomElement ''div'' (Some ''root'') [])
   \<and> Modal page_without_anchor counting_props = Null
   \<and> Modal page_with_anchor (counting_props\<lparr>isOpen := False\<rparr>) = Null"
proof -
  have off: "\<not> isOpen (counting_props\<lparr>isOpen := False\<rparr>)" by simp
  have "Modal page_with_anchor counting_props =
     Portal
       (Elem ''div'' backdrop_style (Some (as_handler count_args))
          [Elem ''div'' panel_style (Some (\<lambda>e w. (stopPropagation e, w))) [Text ''hello'']])
       (DomElement ''div'' (Some ''root'') [])"
    using Modal_visible_iff [of page_with_anchor counting_props]
    by (simp add: page_with_anchor_exists counting_props_open page_with_anchor_lookup)
       (simp add: counting_props_def)
  moreover have "Modal page_without_anchor counting_props = Null"
    using Modal_visible_iff [of page_without_anchor counting_props]
    by (simp add: page_without_anchor_absent)
  moreover have "Modal page_with_anchor (counting_props\<lparr>isOpen := False\<rparr>) = Null"
    using Modal_visible_iff [of page_with_anchor "counting_props\<lparr>isOpen := False\<rparr>"] off
    by simp
  ultimately show ?thesis by simp
qed

text \<open>
  C4. When the anchor node is absent from the document, \<open>Modal\<close> renders nothing for
  every value of \<open>isOpen\<close>. \<open>Modal\<close> is a total function whose only result is the node
  it returns (the source has no \<open>throw\<close>, and the lookup answers null instead of raising),
  and with the anchor absent that result is the null a closed overlay returns: the caller
  cannot tell the missing anchor from a closed overlay.
\<close>

theorem Modal_anchor_absent_renders_nothing:
  assumes "\<not> anchor_exists document"
  shows "Modal document props = Null
    \<and> Modal document props = Modal document (props\<lparr>isOpen := False\<rparr>)"
proof -
  from assms have "getElementById document ''root'' = None"
    by (simp add: anchor_exists_iff)
  then have "Modal document q = Null" for q :: "'a IModalProps"
    by (rule Modal_no_anchor)
  then show ?thesis by simp
qed

theorem Modal_anchor_absent_renders_nothing_witness:
  "\<not> anchor_exists page_without_anchor \<and> isOpen counting_props
   \<and> Modal page_without_anchor counting_props = Null"
  using Modal_anchor_absent_renders_nothing [OF page_without_anchor_absent, of counting_props]
  by (simp add: page_without_anchor_absent counting_props_open)

text \<open>
  C9. When \<open>isOpen\<close> is false, \<open>Modal\<close> returns null before it looks the anchor up:
  the call makes no query to the document, and its result is the same for every document.
\<close>

theorem Modal_closed_skips_lookup:
  assumes "\<not> isOpen props"
  shows "Modal_run document props = (Null, [])
    \<and> Modal document props = Null \<and> Modal_queries document props = []
    \<and> Modal document props = Modal document' props"
  using assms by (simp add: Modal_def Modal_queries_def Modal_run_def)

theorem Modal_closed_skips_lookup_witness:
  "\<not> isOpen (counting_props\<lparr>isOpen := False\<rparr>)
   \<and> Modal_queries page_with_anchor (counting_props\<lparr>isOpen := False\<rparr>) = []
   \<and> Modal_queries page_with_anchor counting_props = [GetElementById ''root'']"
proof -
  have c: "\<not> isOpen (counting_props\<lparr>isOpen := False\<rparr>)" by simp
  show ?thesis
    using Modal_closed_skips_lookup [OF c, of page_with_anchor page_with_anchor]
    by (simp add: Modal_open_queries [OF counting_props_open])
qed

text \<open>
  C6, as stated: two renders with equal \<open>isOpen\<close>, \<open>onClose\<close> and content produce equal
  output. This fails: with the same open props, \<open>Modal\<close> renders a portal on the page that
  has the \<open>root\<close> element and null on the page that has not, because it reads the
  document at each render.
\<close>

theorem Modal_equal_props_unequal_output_counterexample:
  "Modal page_with_anchor counting_props \<noteq> Modal page_without_anchor counting_props"
  by (simp add: Modal_page_with_anchor Modal_no_anchor [OF page_without_anchor_lookup])

text \<open>
  C6, amended. \<open>Modal\<close> keeps no state of its own: its output is a function of its props
  and of the result of the anchor lookup in the document. Two renders with equal
  \<open>isOpen\<close>, \<open>onClose\<close> and content, on documents where the lookup of \<open>root\<close> gives the
  same result, produce equal output.
\<close>

theorem Modal_function_of_props_and_anchor:
  assumes "getElementById document1 ''root'' = getElementById document2 ''root''"
  shows "Modal document1 props = Modal document2 props"
  using assms by (simp add: Modal_def Modal_run_def)

theorem Modal_function_of_props_and_anchor_witness:
  "getElementById page_with_anchor ''root'' = getElementById page_with_anchor_moved ''root''
   \<and> page_with_anchor \<noteq> page_with_anchor_moved
   \<and> Modal page_with_anchor counting_props = Modal page_with_anchor_moved counting_props"
proof -
  have same: "getElementById page_with_anchor ''root'' = getElementById page_with_anchor_moved ''root''"
    by (simp add: page_with_anchor_lookup page_with_anchor_moved_lookup)
  have "page_with_anchor \<noteq> page_with_anchor_moved"
    by (simp add: page_with_anchor_def page_with_anchor_moved_def)
  with same Modal_function_of_props_and_anchor [OF same, of counting_props] show ?thesis
    by simp
qed

section \<open>The overlay component: what it renders\<close>

text \<open>
  C7. When \<open>isOpen\<close> is true and the anchor node exists, \<open>Modal\<close> returns a portal whose
  container is the anchor node (the element of the document with id \<open>root\<close>), so the
  backdrop is mounted under the anchor and not where the caller stands. The backdrop is a
  \<open>div\<close> with fixed position at top 0 and left 0, 100vw wide and 100vh high, filled with
  \<open>rgba(0,0,0,0.4)\<close>, on the stacking layer \<open>zIndex\<close> 1000, and it is a flex box that
  centers its only child, the content panel.
\<close>

theorem Modal_open_renders_backdrop_under_anchor:
  assumes "isOpen props" and "anchor_exists document"
  shows "\<exists>anchor.
      getElementById document ''root'' = Some anchor
    \<and> anchor \<in> set (dom_nodes document) \<and> dom_id anchor = Some ''root''
    \<and> Modal document props =
        createPortal
          (Elem ''div'' backdrop_style (Some (as_handler (onClose props)))
             [Elem ''div'' panel_style (Some (\<lambda>e w. (stopPropagation e, w))) (children props)])
          anchor
    \<and> map_of backdrop_style ''position'' = Some (CssStr ''fixed'')
    \<and> map_of backdrop_style ''top'' = Some (CssNum 0)
    \<and> map_of backdrop_style ''left'' = Some (CssNum 0)
    \<and> map_of backdrop_style ''width'' = Some (CssStr ''100vw'')
    \<and> map_of backdrop_style ''height'' = Some (CssStr ''100vh'')
    \<and> map_of backdrop_style ''backgroundColor'' = Some (CssStr ''rgba(0,0,0,0.4)'')
    \<and> map_of backdrop_style ''zIndex'' = Some (CssNum 1000)
    \<and> map_of backdrop_style ''display'' = Some (CssStr ''flex'')
    \<and> map_of backdrop_style ''alignItems'' = Some (CssStr ''center'')
    \<and> map_of backdrop_style ''justifyContent'' = Some (CssStr ''center'')"
proof -
  from assms(2) obtain a where a: "getElementById document ''root'' = Some a"
    by (auto simp: anchor_exists_iff)
  have "a \<in> set (dom_nodes document) \<and> dom_id a = Some ''root''"
    using a by (rule getElementById_SomeD)
  moreover note Modal_open [OF assms(1) a]
  ultimately show ?thesis
    using a by (simp add: createPortal_def backdrop_style_def)
qed

theorem Modal_open_renders_backdrop_under_anchor_witness:
  "isOpen counting_props \<and> anchor_exists page_with_anchor
   \<and> Modal page_with_anchor counting_props =
       Portal (Elem ''div'' backdrop_style (Some (as_handler count_args))
                 [Elem ''div'' panel_style (Some (\<lambda>e w. (stopPropagation e, w))) [Text ''hello'']])
         (DomElement ''div'' (Some ''root'') [])"
  using Modal_open_renders_backdrop_under_anchor [OF counting_props_open page_with_anchor_exists]
  by (simp add: counting_props_open page_with_anchor_exists page_with_anchor_lookup
      createPortal_def counting_props_def)

text \<open>
  C8. For every content, when \<open>Modal\<close> renders, the children of the content panel are
  exactly the content it was given; and rendering with other content changes nothing in
  the output but the children of the panel, so the component does not look into the
  content.
\<close>

theorem Modal_content_unmodified:
  "rendered_content (Modal document props)
     = (if isOpen props \<and> anchor_exists document then Some (children props) else None)
   \<and> Modal document (props\<lparr>children := cs\<rparr>) = with_content cs (Modal document props)"
proof (cases "isOpen props \<and> anchor_exists document")
  case True
  then obtain a where a: "getElementById document ''root'' = Some a"
    by (auto simp: anchor_exists_iff)
  from True have o: "isOpen props" and o': "isOpen (props\<lparr>children := cs\<rparr>)" by simp_all
  show ?thesis
    using True by (simp add: Modal_open [OF o a] Modal_open [OF o' a])
next
  case False
  then have "Modal document q = Null" if "isOpen q = isOpen props" for q :: "'a IModalProps"
    using that by (auto simp: anchor_exists_iff Modal_closed Modal_no_anchor)
  then show ?thesis using False by simp
qed

theorem Modal_content_unmodified_witness:
  "rendered_content (Modal page_with_anchor counting_props) = Some [Text ''hello'']
   \<and> rendered_content (Modal page_with_anchor (counting_props\<lparr>children := []\<rparr>)) = Some []"
  using Modal_content_unmodified [of page_with_anchor counting_props "[]"]
    Modal_content_unmodified [of page_with_anchor "counting_props\<lparr>children := []\<rparr>" "[]"]
  by (simp add: page_with_anchor_exists counting_props_def)

section \<open>The overlay component: clicks\<close>

text \<open>
  C2. While the overlay is rendered, a click on the content panel (path \<open>[0, 0]\<close> from the
  portal) leaves the world as it was, whatever \<open>onClose\<close> is: \<open>onClose\<close> is not called,
  and the event ends with its propagation stopped. A click on an element inside the content
  (path \<open>0 # 0 # p\<close>) runs exactly the handlers that the content itself has on the way to
  the target and then stops: the backdrop's handler is never reached.
\<close>

theorem panel_click_never_dismisses:
  assumes "isOpen props" and "anchor_exists document"
  shows "click (Modal document props) [0, 0] w = Some (stopPropagation new_click, w)
    \<and> click (Modal document props) (0 # 0 # p) w
        = map_option (\<lambda>(e, w'). (stopPropagation e, w'))
            (click (Elem ''div'' panel_style None (children props)) p w)"
proof -
  from assms(2) obtain a where a: "getElementById document ''root'' = Some a"
    by (auto simp: anchor_exists_iff)
  have inside: "click (Modal document props) (0 # 0 # q) w
          = map_option (\<lambda>(e, w'). (stopPropagation e, w'))
              (click (Elem ''div'' panel_style None (children props)) q w)" for q
    by (simp only: Modal_open [OF assms(1) a] as_handler_def click_inside_panel)
  have "click (Elem ''div'' panel_style None (children props)) [] w = Some (new_click, w)"
    by (simp add: click_def)
  with inside [of "[]"] have "click (Modal document props) [0, 0] w = Some (stopPropagation new_click, w)"
    by simp
  then show ?thesis using inside [of p] by (rule conjI)
qed

theorem panel_click_never_dismisses_witness:
  "isOpen counting_props \<and> anchor_exists page_with_anchor
   \<and> map_option snd (click (Modal page_with_anchor counting_props) [0, 0] []) = Some []"
proof -
  have "click (Modal page_with_anchor counting_props) [0, 0] [] = Some (stopPropagation new_click, [])"
    using panel_click_never_dismisses [OF counting_props_open page_with_anchor_exists, of "[]" "[]"]
    by (rule conjunct1)
  then show ?thesis
    by (simp add: counting_props_open page_with_anchor_exists)
qed

text \<open>
  C3, as stated: a click on the backdrop calls \<open>onClose\<close> with zero arguments. This
  fails: the backdrop's \<open>onClick\<close> prop is \<open>onClose\<close> itself, so React calls it with the
  click event. A callback that records the number of its arguments records 1, where a call
  with no argument would have recorded 0.
\<close>

theorem backdrop_click_zero_arguments_counterexample:
  "map_option snd (click (Modal page_with_anchor counting_props) [0] [])
     \<noteq> Some (onClose counting_props [] [])"
  by (simp add: Modal_page_with_anchor click_def as_handler_def new_click_def count_args_def
      counting_props_onClose)

text \<open>
  C3, amended. While the overlay is rendered, a click on the backdrop (path \<open>[0]\<close> from
  the portal, outside the content panel) calls \<open>onClose\<close> exactly once, and with one
  argument, the click event; a callback that takes no parameter ignores it.
\<close>

theorem backdrop_click_invokes_onClose_once:
  assumes "isOpen props" and "anchor_exists document"
  shows "click (Modal document props) [0] w = Some (new_click, onClose props [new_click] w)"
proof -
  from assms(2) obtain a where a: "getElementById document ''root'' = Some a"
    by (auto simp: anchor_exists_iff)
  show ?thesis
    by (simp add: Modal_open [OF assms(1) a] click_def as_handler_def new_click_def)
qed

theorem backdrop_click_invokes_onClose_once_witness:
  "isOpen counting_props \<and> anchor_exists page_with_anchor
   \<and> map_option snd (click (Modal page_with_anchor counting_props) [0] []) = Some [1]"
  using backdrop_click_invokes_onClose_once [OF counting_props_open page_with_anchor_exists, of "[]"]
  by (simp add: counting_props_open page_with_anchor_exists counting_props_onClose count_args_def)

section \<open>The shell view: the visibility flag\<close>

text \<open>
  C5. The flag is false when the shell is created. The handlers of the rendered shell are
  the trigger's, and, when the overlay is rendered, the backdrop's (\<open>onClose\<close>), the panel's
  and the close button's, and no other. The trigger's sets the flag to true, \<open>onClose\<close> and
  the close button's set it to false, and the panel's leaves it as it is. So a click sets the
  flag to true on the trigger, to false on the backdrop and on the close button, and leaves
  it unchanged on every other element; a path that names no element is no click.
\<close>

theorem flag_written_only_by_trigger_and_dismiss:
  "App_init = False
   \<and> all_handlers (App document s) =
       trigger_onClick #
       (if s \<and> anchor_exists document
        then [as_handler modal_onClose, \<lambda>e w. (stopPropagation e, w), close_onClick]
        else [])
   \<and> snd (trigger_onClick e s0) = True
   \<and> snd (as_handler modal_onClose e s0) = False
   \<and> snd (close_onClick e s0) = False
   \<and> snd ((\<lambda>e w. (stopPropagation e, w)) e s0) = s0
   \<and> App_click document s path =
       (if path = [2] then Some True
        else if s \<and> anchor_exists document \<and> (path = [3, 0] \<or> path = [3, 0, 0, 2])
          then Some False
        else if path = [] \<or> path = [0] \<or> path = [1]
             \<or> (s \<and> anchor_exists document
                  \<and> (path = [3, 0, 0] \<or> path = [3, 0, 0, 0] \<or> path = [3, 0, 0, 1]))
          then Some s
        else None)"
proof -
  have "App_click document s path =
       (if path = [2] then Some True
        else if s \<and> anchor_exists document \<and> (path = [3, 0] \<or> path = [3, 0, 0, 2])
          then Some False
        else if path = [] \<or> path = [0] \<or> path = [1]
             \<or> (s \<and> anchor_exists document
                  \<and> (path = [3, 0, 0] \<or> path = [3, 0, 0, 0] \<or> path = [3, 0, 0, 1]))
          then Some s
        else None)"
  proof (cases "s \<and> anchor_exists document")
    case True
    then have s and "anchor_exists document" by simp_all
    then show ?thesis by (simp add: App_click_open)
  next
    case False
    then show ?thesis by (auto simp: App_click_closed [OF False])
  qed
  then show ?thesis
    by (simp add: App_init_def all_handlers_App trigger_onClick_def as_handler_def
        modal_onClose_def close_onClick_def setIsOpen_def)
qed

theorem flag_written_only_by_trigger_and_dismiss_witness:
  "App_click page_with_anchor App_init [2] = Some True
   \<and> App_click page_with_anchor True [3, 0] = Some False
   \<and> App_click page_with_anchor True [3, 0, 0, 2] = Some False
   \<and> App_click page_with_anchor True [3, 0, 0] = Some True
   \<and> App_click page_with_anchor False [3, 0] = None"
  using flag_written_only_by_trigger_and_dismiss
      [where document = page_with_anchor and s = False and path = "[2]"]
    flag_written_only_by_trigger_and_dismiss
      [where document = page_with_anchor and s = True and path = "[3, 0]"]
    flag_written_only_by_trigger_and_dismiss
      [where document = page_with_anchor and s = True and path = "[3, 0, 0, 2]"]
    flag_written_only_by_trigger_and_dismiss
      [where document = page_with_anchor and s = True and path = "[3, 0, 0]"]
    flag_written_only_by_trigger_and_dismiss
      [where document = page_with_anchor and s = False and path = "[3, 0]"]
  by (simp add: page_with_anchor_exists App_init_def)

text \<open>
  C10. Opening and dismissing are idempotent on the flag. The trigger handler yields true
  and each dismiss handler (\<open>onClose\<close> and the close button's) yields false whatever the
  current value is, so running a handler twice gives the same flag as running it once.
\<close>

theorem open_and_dismiss_idempotent:
  "setIsOpen v (setIsOpen v s) = setIsOpen v s
   \<and> snd (trigger_onClick e s) = True
   \<and> snd (trigger_onClick e' (snd (trigger_onClick e s))) = snd (trigger_onClick e s)
   \<and> modal_onClose args s = False
   \<and> modal_onClose args' (modal_onClose args s) = modal_onClose args s
   \<and> snd (close_onClick e s) = False
   \<and> snd (close_onClick e' (snd (close_onClick e s))) = snd (close_onClick e s)"
  by (simp add: setIsOpen_def trigger_onClick_def modal_onClose_def close_onClick_def)

theorem open_and_dismiss_idempotent_witness:
  "snd (trigger_onClick new_click (snd (trigger_onClick new_click False))) = True
   \<and> modal_onClose [new_click] (modal_onClose [new_click] True) = False
   \<and> snd (close_onClick new_click (snd (close_onClick new_click True))) = False"
  using open_and_dismiss_idempotent [of True False new_click new_click "[new_click]" "[new_click]"]
    open_and_dismiss_idempotent [of False True new_click new_click "[new_click]" "[new_click]"]
  by simp

end
